theory Spec2Isabelle
  imports Complex_Main
begin

section \<open>The detection script \<^verbatim>\<open>my_model/yolo_detect.py\<close>\<close>

text \<open>
  The script is one Python module executed top to bottom: it opens a serial connection,
  parses its arguments, classifies the source, opens the capture and the recorder, runs an
  inference loop and cleans up. The model below follows the module line by line. The
  builtins and library calls whose behaviour decides a property are modelled
  (\<^verbatim>\<open>int\<close> on a string, \<^verbatim>\<open>os.path.splitext\<close>, \<^verbatim>\<open>str.lower\<close>, \<^verbatim>\<open>in\<close> on strings, the
  decimal rendering of an integer); the collaborators (file system, serial device, camera,
  detection model, keyboard) are fields of an environment record.

  Strings are byte lists: the UTF-8 encoding of the program's text, so that an ASCII
  character is one byte and any other character a lead byte with its continuation bytes.
  Exceptions and \<^verbatim>\<open>sys.exit\<close> are values. Time is not modelled: the throughput
  line of an iteration is an event without its number.
\<close>

subsection \<open>Exceptions and process exit\<close>

datatype py_exc = ValueError | KeyError | NameError | SerialException

datatype exit = SysExit int | Uncaught py_exc

subsection \<open>Python builtins\<close>

text \<open>\<^verbatim>\<open>sub in s\<close> on strings: \<^verbatim>\<open>sub\<close> occurs as a contiguous substring.\<close>

fun py_in :: "string \<Rightarrow> string \<Rightarrow> bool" where
  "py_in sub [] = (sub = [])"
| "py_in sub (c # cs) = (take (length sub) (c # cs) = sub \<or> py_in sub cs)"

definition is_space :: "char \<Rightarrow> bool" where
  "is_space c = (of_char c \<in> {9, 10, 11, 12, 13, 32 :: nat})"

definition is_digit :: "char \<Rightarrow> bool" where
  "is_digit c = (48 \<le> (of_char c :: nat) \<and> (of_char c :: nat) \<le> 57)"

definition digit_val :: "char \<Rightarrow> int" where
  "digit_val c = int (of_char c) - 48"

definition strip :: "string \<Rightarrow> string" where
  "strip s = rev (dropWhile is_space (rev (dropWhile is_space s)))"

text \<open>
  The digits of an integer literal: decimal digits, single underscores allowed between two
  digits. The result is \<open>None\<close> where CPython reports an invalid literal.
\<close>

fun scan_digits :: "int \<Rightarrow> string \<Rightarrow> int option" where
  "scan_digits acc [] = Some acc"
| "scan_digits acc (c # cs) =
     (if is_digit c then scan_digits (10 * acc + digit_val c) cs
      else if c = CHR ''_'' \<and> cs \<noteq> [] \<and> is_digit (hd cs) then scan_digits acc cs
      else None)"

text \<open>Text of ASCII characters only.\<close>

definition is_ascii :: "string \<Rightarrow> bool" where
  "is_ascii s = (\<forall>c \<in> set s. (of_char c :: nat) < 128)"

text \<open>
  \<^verbatim>\<open>int(s)\<close> for a string \<open>s\<close>, base 10. On ASCII text: surrounding whitespace, one
  optional sign, then the digits. The second argument is the interpreter's
  \<^verbatim>\<open>sys.get_int_max_str_digits()\<close> (CPython 3.11 and later: 4300 by default, literals with
  more digits raise ValueError; \<open>0\<close> switches the limit off, as do earlier interpreters).
  CPython also reads the decimal digits and the white space of other scripts: on text that
  is not ASCII the result is what the first argument gives, the interpreter's own answer
  (\<open>None\<close>: ValueError), which this theory does not spell out.
\<close>

definition py_int :: "(string \<Rightarrow> int option) \<Rightarrow> nat \<Rightarrow> string \<Rightarrow> py_exc + int" where
  "py_int uni maxd s =
     (if \<not> is_ascii s then
        (case uni s of None \<Rightarrow> Inl ValueError | Some n \<Rightarrow> Inr n)
      else
        (let t = strip s;
             neg = (t \<noteq> [] \<and> hd t = CHR ''-'');
             u = (if t \<noteq> [] \<and> (hd t = CHR ''-'' \<or> hd t = CHR ''+'') then tl t else t)
         in if u = [] \<or> \<not> is_digit (hd u) then Inl ValueError
            else if maxd \<noteq> 0 \<and> maxd < length (filter is_digit u) then Inl ValueError
            else (case scan_digits 0 u of
                    None \<Rightarrow> Inl ValueError
                  | Some n \<Rightarrow> Inr (if neg then - n else n))))"

text \<open>
  The slice \<^verbatim>\<open>s[n:]\<close>: the text without its first \<open>n\<close> characters. A character is a
  byte together with the continuation bytes (\<open>0x80\<close> to \<open>0xBF\<close>) that follow it.
\<close>

definition is_continuation :: "char \<Rightarrow> bool" where
  "is_continuation c = (128 \<le> (of_char c :: nat) \<and> (of_char c :: nat) < 192)"

fun py_drop :: "nat \<Rightarrow> string \<Rightarrow> string" where
  "py_drop 0 s = s"
| "py_drop (Suc n) [] = []"
| "py_drop (Suc n) (c # cs) = py_drop n (dropWhile is_continuation cs)"

text \<open>The value of a string of decimal digits, most significant first.\<close>

definition decimal :: "string \<Rightarrow> int" where
  "decimal ds = foldl (\<lambda>a c. 10 * a + digit_val c) 0 ds"

text \<open>\<^verbatim>\<open>str(i)\<close> for an integer, as an f-string renders it.\<close>

fun digits_of :: "nat \<Rightarrow> string" where
  "digits_of n =
     (if n < 10 then [char_of (48 + n)]
      else digits_of (n div 10) @ [char_of (48 + n mod 10)])"

declare digits_of.simps [simp del]

definition py_str :: "int \<Rightarrow> string" where
  "py_str i = (if i < 0 then CHR ''-'' # digits_of (nat (- i)) else digits_of (nat i))"

text \<open>\<^verbatim>\<open>str.lower\<close> on ASCII text.\<close>

definition lower_char :: "char \<Rightarrow> char" where
  "lower_char c =
     (if 65 \<le> (of_char c :: nat) \<and> (of_char c :: nat) \<le> 90 then char_of (of_char c + 32 :: nat)
      else c)"

definition lower :: "string \<Rightarrow> string" where
  "lower s = map lower_char s"

text \<open>
  \<^verbatim>\<open>str.rfind\<close> for a class of characters: the index of the last character satisfying
  \<open>P\<close>, or \<open>-1\<close>.
\<close>

definition rfind :: "(char \<Rightarrow> bool) \<Rightarrow> string \<Rightarrow> int" where
  "rfind P s =
     (if \<exists>c \<in> set s. P c
      then int (length s) - 1 - int (length (takeWhile (\<lambda>c. \<not> P c) (rev s)))
      else - 1)"

text \<open>
  \<^verbatim>\<open>os.path.splitext\<close> (\<^verbatim>\<open>genericpath._splitext\<close>). The first argument holds the path
  separators of the platform: \<open>''/''\<close> on POSIX, backslash and slash on Windows. The
  extension starts at the last dot after the last separator, unless the file name holds
  only dots before it.
\<close>

definition splitext :: "string \<Rightarrow> string \<Rightarrow> string \<times> string" where
  "splitext seps p =
     (let sepIndex = rfind (\<lambda>c. c \<in> set seps) p;
          dotIndex = rfind (\<lambda>c. c = CHR ''.'') p
      in if sepIndex < dotIndex \<and>
            (\<exists>c \<in> set (take (nat (dotIndex - (sepIndex + 1))) (drop (nat (sepIndex + 1)) p)).
               c \<noteq> CHR ''.'')
         then (take (nat dotIndex) p, drop (nat dotIndex) p)
         else (p, []))"

text \<open>\<^verbatim>\<open>int(x)\<close> for a float: truncation towards zero.\<close>

definition py_trunc :: "rat \<Rightarrow> int" where
  "py_trunc x = (if 0 \<le> x then \<lfloor>x\<rfloor> else \<lceil>x\<rceil>)"

text \<open>\<^verbatim>\<open>s.replace('\<times>', 'x')\<close>: the multiplication sign is the two bytes C3 97 in UTF-8.\<close>

fun replace_times :: "string \<Rightarrow> string" where
  "replace_times (a # b # cs) =
     (if a = CHR 0xC3 \<and> b = CHR 0x97 then CHR ''x'' # replace_times cs
      else a # replace_times (b # cs))"
| "replace_times cs = cs"

text \<open>\<^verbatim>\<open>s.split(sep)\<close> for a one-character separator.\<close>

fun split_on :: "char \<Rightarrow> string \<Rightarrow> string list" where
  "split_on sep [] = [[]]"
| "split_on sep (c # cs) =
     (if c = sep then [] # split_on sep cs
      else (case split_on sep cs of
              p # ps \<Rightarrow> (c # p) # ps
            | [] \<Rightarrow> [[c]]))"

text \<open>
  \<^verbatim>\<open>glob.glob(src + '/*')\<close> on a POSIX file system (on Windows the parts are joined with
  a backslash instead). The pattern is split at its last slash into the directory part,
  without its trailing slashes, and the star; the star matches every name the directory
  lists except those that start with a dot, whatever the name stands for, and each match
  is joined to the directory part. A directory part with a metacharacter is itself
  expanded as a pattern first.
\<close>

definition has_magic :: "string \<Rightarrow> bool" where
  "has_magic s = (\<exists>c \<in> set s. c = CHR ''*'' \<or> c = CHR ''?'' \<or> c = CHR ''['')"

definition ishidden :: "string \<Rightarrow> bool" where
  "ishidden name = (name \<noteq> [] \<and> hd name = CHR ''.'')"

definition glob_dirname :: "string \<Rightarrow> string" where
  "glob_dirname src =
     (let head = src @ ''/''
      in if \<forall>c \<in> set head. c = CHR ''/'' then head
         else rev (dropWhile (\<lambda>c. c = CHR ''/'') (rev head)))"

definition path_join :: "string \<Rightarrow> string \<Rightarrow> string" where
  "path_join a b =
     (if b \<noteq> [] \<and> hd b = CHR ''/'' then b
      else if a = [] \<or> last a = CHR ''/'' then a @ b
      else a @ ''/'' @ b)"

subsection \<open>Data\<close>

datatype source_type = Image | Folder | Video | Usb

type_synonym color = "nat \<times> nat \<times> nat"

datatype draw =
    Rectangle "int \<times> int" "int \<times> int" color nat
  | PutText string "int \<times> int" color

text \<open>
  A frame: the decoded picture (named by where it came from), the size \<^verbatim>\<open>cv2.resize\<close>
  gave it, and what has been drawn on it, oldest first.
\<close>

record frame =
  picture :: string
  resized :: "(int \<times> int) option"
  overlay :: "draw list"

text \<open>
  One entry of \<^verbatim>\<open>results[0].boxes\<close>. Confidences are rationals: a finite float is one,
  comparing two floats compares their values, and the product of a single-precision
  confidence and 100 is exact in double precision (at most 24 + 7 significant bits).
\<close>

record detection =
  xyxy :: "int \<times> int \<times> int \<times> int"
  cls :: int
  conf :: rat

datatype message =
    Connected
  | Could_not_connect
  | Model_path_invalid
  | Invalid_input string
  | Recording_only_video_or_camera
  | Specify_resolution
  | Signal_sent string
  | Error_sending nat py_exc
  | Connection_not_available
  | All_images_processed
  | End_of_stream
  | FPS

text \<open>What the process does to the outside world, in order.\<close>

datatype event =
    Print message
  | Sleep nat
  | SerialOpen
  | SerialWrite string
  | SerialClose
  | RecorderOpen "int \<times> int"
  | RecorderWrite frame
  | RecorderRelease
  | CapOpen "string + int"
  | CapSet nat int
  | CapRelease
  | Imshow frame
  | DestroyAllWindows

text \<open>The command line, as \<^verbatim>\<open>argparse\<close> hands it over.\<close>

record args =
  arg_model :: string
  arg_source :: string
  arg_thresh :: string
  arg_resolution :: "string option"
  arg_record :: bool

text \<open>
  The collaborators. \<open>serial_write e n\<close> is the outcome of the \<open>n\<close>-th call of
  \<^verbatim>\<open>arduino.write\<close> (\<open>None\<close>: it returns; \<open>Some x\<close>: it raises \<open>x\<close>, an
  \<^verbatim>\<open>Exception\<close>), \<open>cap_read e n\<close> that of the \<open>n\<close>-th \<^verbatim>\<open>cap.read()\<close> (\<open>None\<close>:
  \<^verbatim>\<open>ret\<close> is false), \<open>wait_key e n\<close> the key the \<open>n\<close>-th \<^verbatim>\<open>cv2.waitKey(5)\<close> returns.
  \<open>py_float\<close> is \<^verbatim>\<open>float\<close> on a string (\<open>None\<close>: ValueError) and \<open>int_unicode\<close> is
  \<^verbatim>\<open>int\<close> on text that is not ASCII. \<open>yolo\<close> is the loading of the model by
  \<^verbatim>\<open>YOLO(model_path, task='detect')\<close> (\<open>None\<close>: it returns; \<open>Some x\<close>: it raises \<open>x\<close>),
  \<open>names\<close> is \<^verbatim>\<open>model.names\<close>, \<open>infer\<close> the detection model. \<open>listdir\<close> gives the names
  a directory holds, files and subdirectories alike, in the order \<^verbatim>\<open>os.scandir\<close> yields
  them (none when it cannot be listed); \<open>glob_magic\<close> is \<^verbatim>\<open>glob.glob\<close> on a pattern whose
  directory part holds a metacharacter.
\<close>

record env =
  path_seps :: string
  int_max_str_digits :: nat
  path_exists :: "string \<Rightarrow> bool"
  isdir :: "string \<Rightarrow> bool"
  isfile :: "string \<Rightarrow> bool"
  listdir :: "string \<Rightarrow> string list"
  glob_magic :: "string \<Rightarrow> string list"
  py_float :: "string \<Rightarrow> rat option"
  int_unicode :: "string \<Rightarrow> int option"
  yolo :: "string \<Rightarrow> py_exc option"
  serial_connects :: bool
  serial_write :: "nat \<Rightarrow> py_exc option"
  names :: "int \<rightharpoonup> string"
  infer :: "frame \<Rightarrow> detection list"
  imread :: "string \<Rightarrow> frame"
  cap_read :: "nat \<Rightarrow> frame option"
  wait_key :: "nat \<Rightarrow> int"

text \<open>
  The module's global variables, the counters of the calls made to the collaborators, and
  the trace. \<open>arduino\<close> is \<open>None\<close> when \<^verbatim>\<open>init_serial\<close> returned \<^verbatim>\<open>None\<close>, otherwise
  the connection's \<^verbatim>\<open>is_open\<close>. A variable the script has not bound yet holds the value
  of \<open>init_state\<close>.
\<close>

record state =
  arduino :: "bool option"
  min_thresh :: rat
  source_type :: "source_type option"
  usb_idx :: "int option"
  resize :: bool
  res :: "(int \<times> int) option"
  recorder :: bool
  cap :: bool
  imgs_list :: "string list"
  writes :: nat
  reads :: nat
  polls :: nat
  trace :: "event list"

definition init_state :: state where
  "init_state =
     \<lparr>arduino = None, min_thresh = 0, source_type = None, usb_idx = None, resize = False,
      res = None, recorder = False, cap = False, imgs_list = [], writes = 0, reads = 0,
      polls = 0, trace = []\<rparr>"

definition log :: "event \<Rightarrow> state \<Rightarrow> state" where
  "log ev st = st\<lparr>trace := trace st @ [ev]\<rparr>"

subsection \<open>Startup (lines 12 to 96)\<close>

text \<open>
  A stage of the script either ends the process (with the state reached so far) or hands
  the state on.
\<close>

type_synonym stage = "(exit \<times> state) + state"

definition then_do :: "stage \<Rightarrow> (state \<Rightarrow> stage) \<Rightarrow> stage" where
  "then_do r f = (case r of Inl x \<Rightarrow> Inl x | Inr st \<Rightarrow> f st)"

text \<open>Lines 13 to 23: \<^verbatim>\<open>arduino = init_serial()\<close>.\<close>

definition init_serial :: "env \<Rightarrow> state \<Rightarrow> state" where
  "init_serial e st =
     (if serial_connects e
      then log (Print Connected) (log (Sleep 2) (log SerialOpen (st\<lparr>arduino := Some True\<rparr>)))
      else log (Print Could_not_connect) (st\<lparr>arduino := None\<rparr>))"

text \<open>Lines 36 to 40: \<^verbatim>\<open>min_thresh = float(args.thresh)\<close>.\<close>

definition parse_inputs :: "env \<Rightarrow> args \<Rightarrow> state \<Rightarrow> stage" where
  "parse_inputs e a st =
     (case py_float e (arg_thresh a) of
        None \<Rightarrow> Inl (Uncaught ValueError, st)
      | Some t \<Rightarrow> Inr (st\<lparr>min_thresh := t\<rparr>))"

text \<open>Lines 43 to 45.\<close>

definition check_model :: "env \<Rightarrow> args \<Rightarrow> state \<Rightarrow> stage" where
  "check_model e a st =
     (if \<not> path_exists e (arg_model a) then Inl (SysExit 0, log (Print Model_path_invalid) st)
      else Inr st)"

text \<open>Line 48: \<^verbatim>\<open>model = YOLO(model_path, task='detect')\<close>.\<close>

definition load_model :: "env \<Rightarrow> args \<Rightarrow> state \<Rightarrow> stage" where
  "load_model e a st =
     (case yolo e (arg_model a) of
        Some x \<Rightarrow> Inl (Uncaught x, st)
      | None \<Rightarrow> Inr st)"

definition img_ext_list :: "string list" where
  "img_ext_list = [''.jpg'', ''.jpeg'', ''.png'', ''.bmp'']"

definition vid_ext_list :: "string list" where
  "vid_ext_list = [''.avi'', ''.mov'', ''.mp4'', ''.mkv'', ''.wmv'']"

text \<open>
  Lines 55 to 65, as a function of the source string: the source type and the camera
  index, or what the script prints and how the process ends.
\<close>

definition classify_source ::
  "env \<Rightarrow> string \<Rightarrow> (message list \<times> exit) + (source_type \<times> int option)" where
  "classify_source e img_source =
     (if isdir e img_source then Inr (Folder, None)
      else if isfile e img_source then
        (let ext = snd (splitext (path_seps e) img_source)
         in if ext \<in> set img_ext_list then Inr (Image, None)
            else if ext \<in> set vid_ext_list then Inr (Video, None)
            else Inl ([], SysExit 0))
      else if py_in ''usb'' img_source then
        (case py_int (int_unicode e) (int_max_str_digits e) (py_drop 3 img_source) of
           Inl x \<Rightarrow> Inl ([], Uncaught x)
         | Inr i \<Rightarrow> Inr (Usb, Some i))
      else Inl ([Invalid_input img_source], SysExit 0))"

definition determine_input_type :: "env \<Rightarrow> args \<Rightarrow> state \<Rightarrow> stage" where
  "determine_input_type e a st =
     (case classify_source e (arg_source a) of
        Inl (msgs, x) \<Rightarrow> Inl (x, st\<lparr>trace := trace st @ map Print msgs\<rparr>)
      | Inr (ty, idx) \<Rightarrow> Inr (st\<lparr>source_type := Some ty, usb_idx := idx\<rparr>))"

text \<open>\<^verbatim>\<open>if user_res:\<close> holds for a string that is neither \<^verbatim>\<open>None\<close> nor empty.\<close>

definition truthy :: "string option \<Rightarrow> bool" where
  "truthy r = (case r of None \<Rightarrow> False | Some s \<Rightarrow> s \<noteq> [])"

text \<open>
  Line 71: \<^verbatim>\<open>resW, resH = map(int, user_res.replace('\<times>', 'x').split('x'))\<close>. A part that
  is no integer and a number of parts other than two both raise ValueError.
\<close>

definition parse_resolution ::
  "(string \<Rightarrow> int option) \<Rightarrow> nat \<Rightarrow> string \<Rightarrow> py_exc + (int \<times> int)" where
  "parse_resolution uni maxd user_res =
     (case map (py_int uni maxd) (split_on CHR ''x'' (replace_times user_res)) of
        [Inr w, Inr h] \<Rightarrow> Inr (w, h)
      | _ \<Rightarrow> Inl ValueError)"

text \<open>Lines 68 to 71.\<close>

definition handle_resolution :: "env \<Rightarrow> args \<Rightarrow> state \<Rightarrow> stage" where
  "handle_resolution e a st =
     (case arg_resolution a of
        None \<Rightarrow> Inr st
      | Some user_res \<Rightarrow>
          if user_res = [] then Inr st
          else (case parse_resolution (int_unicode e) (int_max_str_digits e) user_res of
                  Inl x \<Rightarrow> Inl (Uncaught x, st\<lparr>resize := True\<rparr>)
                | Inr wh \<Rightarrow> Inr (st\<lparr>resize := True, res := Some wh\<rparr>)))"

text \<open>Lines 74 to 81.\<close>

definition recording_setup :: "args \<Rightarrow> state \<Rightarrow> stage" where
  "recording_setup a st =
     (if arg_record a then
        (if source_type st \<notin> {Some Video, Some Usb}
         then Inl (SysExit 0, log (Print Recording_only_video_or_camera) st)
         else if \<not> truthy (arg_resolution a)
         then Inl (SysExit 0, log (Print Specify_resolution) st)
         else (case res st of
                 Some wh \<Rightarrow> Inr (log (RecorderOpen wh) (st\<lparr>recorder := True\<rparr>))
               | None \<Rightarrow> Inl (Uncaught NameError, st)))
      else Inr st)"

text \<open>
  \<^verbatim>\<open>glob.glob(img_source + '/*')\<close>, line 88.
\<close>

definition py_glob_star :: "env \<Rightarrow> string \<Rightarrow> string list" where
  "py_glob_star e src =
     (let dirname = glob_dirname src
      in if has_magic dirname then glob_magic e (src @ ''/*'')
         else map (path_join dirname) (filter (\<lambda>name. \<not> ishidden name) (listdir e dirname)))"

text \<open>
  Lines 84 to 93. The comprehension keeps the matches of the pattern that have an image
  extension.
\<close>

definition open_source :: "env \<Rightarrow> args \<Rightarrow> state \<Rightarrow> stage" where
  "open_source e a st =
     (if source_type st = Some Image then Inr (st\<lparr>imgs_list := [arg_source a]\<rparr>)
      else if source_type st = Some Folder then
        Inr (st\<lparr>imgs_list :=
                  filter (\<lambda>file. snd (splitext (path_seps e) file) \<in> set img_ext_list)
                    (py_glob_star e (arg_source a))\<rparr>)
      else if source_type st \<in> {Some Video, Some Usb} then
        (case (if source_type st = Some Video then Some (Inl (arg_source a))
               else map_option Inr (usb_idx st)) of
           None \<Rightarrow> Inl (Uncaught NameError, st)
         | Some src \<Rightarrow>
             (let st1 = log (CapOpen src) (st\<lparr>cap := True\<rparr>)
              in if truthy (arg_resolution a)
                 then (case res st1 of
                         Some (resW, resH) \<Rightarrow> Inr (log (CapSet 4 resH) (log (CapSet 3 resW) st1))
                       | None \<Rightarrow> Inl (Uncaught NameError, st1))
                 else Inr st1))
      else Inr st)"

definition startup :: "env \<Rightarrow> args \<Rightarrow> stage" where
  "startup e a =
     then_do (parse_inputs e a (init_serial e init_state)) (\<lambda>st1.
     then_do (check_model e a st1) (\<lambda>st2.
     then_do (load_model e a st2) (\<lambda>st3.
     then_do (determine_input_type e a st3) (\<lambda>st4.
     then_do (handle_resolution e a st4) (\<lambda>st5.
     then_do (recording_setup a st5) (\<lambda>st6.
     open_source e a st6))))))"

definition bbox_colors :: "color list" where
  "bbox_colors = [(164, 120, 87), (68, 148, 228), (93, 97, 209), (178, 182, 133)]"

subsection \<open>Signalling (lines 99 to 110)\<close>

text \<open>
  \<^verbatim>\<open>arduino.write(signal.encode())\<close>: the call is recorded and counted; its outcome is
  the collaborator's.
\<close>

definition arduino_write :: "env \<Rightarrow> string \<Rightarrow> state \<Rightarrow> py_exc option \<times> state" where
  "arduino_write e signal st =
     (serial_write e (writes st), log (SerialWrite signal) (st\<lparr>writes := writes st + 1\<rparr>))"

text \<open>
  The \<^verbatim>\<open>for attempt in range(retries)\<close> loop, from attempt number \<open>attempt\<close> with
  \<open>k\<close> attempts left. \<^verbatim>\<open>except Exception\<close> catches whatever the write raises; the
  handler prints and sleeps, also after the last attempt.
\<close>

fun send_attempts :: "env \<Rightarrow> string \<Rightarrow> nat \<Rightarrow> nat \<Rightarrow> state \<Rightarrow> state" where
  "send_attempts e signal attempt 0 st = st"
| "send_attempts e signal attempt (Suc k) st =
     (case arduino_write e signal st of
        (None, st1) \<Rightarrow> log (Print (Signal_sent signal)) st1
      | (Some x, st1) \<Rightarrow>
          send_attempts e signal (attempt + 1) k
            (log (Sleep 1) (log (Print (Error_sending (attempt + 1) x)) st1)))"

definition send_signal_to_arduino :: "env \<Rightarrow> string \<Rightarrow> nat \<Rightarrow> state \<Rightarrow> state" where
  "send_signal_to_arduino e signal retries st =
     (if arduino st = Some True then send_attempts e signal 0 retries st
      else log (Print Connection_not_available) st)"

subsection \<open>The inference loop (lines 113 to 170)\<close>

text \<open>
  Lines 117 to 126, the frame of this iteration: a frame, the \<^verbatim>\<open>sys.exit(0)\<close> of the
  image sources, or the \<^verbatim>\<open>break\<close> of the capture sources. With neither branch taken the
  name \<^verbatim>\<open>frame\<close> is unbound.
\<close>

datatype acquired = Frame frame | Exhausted | Stream_ended | Unbound

definition load_frame :: "env \<Rightarrow> state \<Rightarrow> acquired \<times> state" where
  "load_frame e st =
     (if source_type st \<in> {Some Image, Some Folder} then
        (case imgs_list st of
           [] \<Rightarrow> (Exhausted, log (Print All_images_processed) st)
         | file # rest \<Rightarrow> (Frame (imread e file), st\<lparr>imgs_list := rest\<rparr>))
      else if cap st then
        (case cap_read e (reads st) of
           None \<Rightarrow> (Stream_ended, log (Print End_of_stream) (st\<lparr>reads := reads st + 1\<rparr>))
         | Some f \<Rightarrow> (Frame f, st\<lparr>reads := reads st + 1\<rparr>))
      else (Unbound, st))"

text \<open>Line 146: \<^verbatim>\<open>bbox_colors[classidx % len(bbox_colors)]\<close>.\<close>

definition box_color :: "int \<Rightarrow> color" where
  "box_color classidx = bbox_colors ! nat (classidx mod int (length bbox_colors))"

text \<open>Line 148: the text of the label, \<^verbatim>\<open>f'{classname}: {int(conf*100)}%'\<close>.\<close>

definition label_text :: "string \<Rightarrow> rat \<Rightarrow> string" where
  "label_text classname c = classname @ '': '' @ py_str (py_trunc (c * 100)) @ ''%''"

text \<open>Lines 146 to 148: what is drawn for a detection above the threshold.\<close>

definition draw_detection :: "string \<Rightarrow> detection \<Rightarrow> draw list" where
  "draw_detection classname d =
     (case xyxy d of (xmin, ymin, xmax, ymax) \<Rightarrow>
        [Rectangle (xmin, ymin) (xmax, ymax) (box_color (cls d)) 2,
         PutText (label_text classname (conf d)) (xmin, ymin - 7) (box_color (cls d))])"

text \<open>
  Lines 138 to 152, the loop over the detections, on the frame and the flag
  \<^verbatim>\<open>ambulance_detected\<close>. \<^verbatim>\<open>labels[classidx]\<close> raises KeyError for an index the model
  has no name for.
\<close>

fun process_detections ::
  "(int \<rightharpoonup> string) \<Rightarrow> rat \<Rightarrow> detection list \<Rightarrow> frame \<times> bool \<Rightarrow> py_exc + frame \<times> bool" where
  "process_detections labels thresh [] (fr, ambulance_detected) = Inr (fr, ambulance_detected)"
| "process_detections labels thresh (d # ds) (fr, ambulance_detected) =
     (case labels (cls d) of
        None \<Rightarrow> Inl KeyError
      | Some classname \<Rightarrow>
          if thresh < conf d
          then process_detections labels thresh ds
                 (fr\<lparr>overlay := overlay fr @ draw_detection classname d\<rparr>,
                  ambulance_detected \<or> lower classname = ''ambulance'')
          else process_detections labels thresh ds (fr, ambulance_detected))"

text \<open>
  Lines 135 to 156: the flag is reset, the detections are processed, and the signal is
  sent when the flag was raised.
\<close>

definition detect_and_signal ::
  "env \<Rightarrow> detection list \<Rightarrow> frame \<Rightarrow> state \<Rightarrow> py_exc + frame \<times> state" where
  "detect_and_signal e detections fr st =
     (case process_detections (names e) (min_thresh st) detections (fr, False) of
        Inl x \<Rightarrow> Inl x
      | Inr (fr1, ambulance_detected) \<Rightarrow>
          Inr (fr1, if ambulance_detected then send_signal_to_arduino e ''A'' 3 st else st))"

datatype step = Continue state | Break state | Exit exit state

text \<open>Lines 159 to 170: display, recording, key press, throughput.\<close>

definition show_and_poll :: "env \<Rightarrow> args \<Rightarrow> frame \<Rightarrow> state \<Rightarrow> step" where
  "show_and_poll e a fr st =
     (let st1 = log (Imshow fr) st;
          st2 = (if arg_record a then log (RecorderWrite fr) st1 else st1);
          key = wait_key e (polls st2);
          st3 = st2\<lparr>polls := polls st2 + 1\<rparr>
      in if key \<in> {113, 81} then Break st3 else Continue (log (Print FPS) st3))"

text \<open>One pass through the body of \<^verbatim>\<open>while True\<close>.\<close>

definition iteration :: "env \<Rightarrow> args \<Rightarrow> state \<Rightarrow> step" where
  "iteration e a st =
     (case load_frame e st of
        (Exhausted, st1) \<Rightarrow> Exit (SysExit 0) st1
      | (Stream_ended, st1) \<Rightarrow> Break st1
      | (Unbound, st1) \<Rightarrow> Exit (Uncaught NameError) st1
      | (Frame fr, st1) \<Rightarrow>
          (case (if resize st1 then map_option (\<lambda>wh. fr\<lparr>resized := Some wh\<rparr>) (res st1)
                 else Some fr) of
             None \<Rightarrow> Exit (Uncaught NameError) st1
           | Some fr1 \<Rightarrow>
               (case detect_and_signal e (infer e fr1) fr1 st1 of
                  Inl x \<Rightarrow> Exit (Uncaught x) st1
                | Inr (fr2, st2) \<Rightarrow> show_and_poll e a fr2 st2)))"

text \<open>
  The loop, for at most \<open>n\<close> iterations: how it was left, or \<open>Running\<close> when it is still
  going after them.
\<close>

datatype outcome = Terminated exit | Finished | Running

fun run_loop :: "env \<Rightarrow> args \<Rightarrow> nat \<Rightarrow> state \<Rightarrow> outcome \<times> state" where
  "run_loop e a 0 st = (Running, st)"
| "run_loop e a (Suc n) st =
     (case iteration e a st of
        Continue st1 \<Rightarrow> run_loop e a n st1
      | Break st1 \<Rightarrow> (Finished, st1)
      | Exit x st1 \<Rightarrow> (Terminated x, st1))"

text \<open>Lines 173 to 179.\<close>

definition cleanup :: "args \<Rightarrow> state \<Rightarrow> state" where
  "cleanup a st =
     (let st1 = (if cap st then log CapRelease st else st);
          st2 = (if arg_record a then log RecorderRelease st1 else st1);
          st3 = log DestroyAllWindows st2
      in if arduino st3 \<noteq> None then log SerialClose (st3\<lparr>arduino := Some False\<rparr>) else st3)"

text \<open>
  The whole script: startup, the loop, and the cleanup block when the loop was left by
  \<^verbatim>\<open>break\<close>.
\<close>

definition main :: "env \<Rightarrow> args \<Rightarrow> nat \<Rightarrow> outcome \<times> state" where
  "main e a n =
     (case startup e a of
        Inl (x, st) \<Rightarrow> (Terminated x, st)
      | Inr st \<Rightarrow>
          (case run_loop e a n st of
             (Finished, st1) \<Rightarrow> (Finished, cleanup a st1)
           | r \<Rightarrow> r))"

subsection \<open>Exit status\<close>


subsection \<open>The resources in a trace\<close>

text \<open>
  The resources the script opens and releases, with the events that open one (\<open>True\<close>)
  and the events that release one (\<open>False\<close>). \<^verbatim>\<open>cv2.destroyAllWindows\<close> releases the
  display, which the first \<^verbatim>\<open>cv2.imshow\<close> opens. \<open>opened\<close> and \<open>released\<close> list the
  resources a trace opens and releases, in order and with repetitions.
\<close>

datatype resource = Serial | Recorder | Capture | Display

fun resource_of :: "event \<Rightarrow> (resource \<times> bool) option" where
  "resource_of SerialOpen = Some (Serial, True)"
| "resource_of SerialClose = Some (Serial, False)"
| "resource_of (RecorderOpen wh) = Some (Recorder, True)"
| "resource_of RecorderRelease = Some (Recorder, False)"
| "resource_of (CapOpen src) = Some (Capture, True)"
| "resource_of CapRelease = Some (Capture, False)"
| "resource_of DestroyAllWindows = Some (Display, False)"
| "resource_of ev = None"

definition opened :: "event list \<Rightarrow> resource list" where
  "opened tr = map fst (filter snd (List.map_filter resource_of tr))"

definition released :: "event list \<Rightarrow> resource list" where
  "released tr = map fst (filter (\<lambda>p. \<not> snd p) (List.map_filter resource_of tr))"

text \<open>The state a pass through the loop body ends in.\<close>

fun state_of :: "step \<Rightarrow> state" where
  "state_of (Continue st) = st"
| "state_of (Break st) = st"
| "state_of (Exit x st) = st"

subsection \<open>Sample collaborators\<close>

text \<open>
  A device whose first \<open>k\<close> writes fail, a model that loads, knows three classes and
  reports one ambulance per frame, a file system with the weights file, one picture, a
  directory \<^verbatim>\<open>d\<close> of three files and a directory \<^verbatim>\<open>mixed\<close> that holds a picture, a
  subdirectory named \<^verbatim>\<open>sub.jpg\<close> and a hidden picture, an interpreter that reads the two
  Arabic-Indic digits one and two as 12, a camera that delivers nothing, and a keyboard
  nobody touches.
\<close>

definition sample_labels :: "int \<rightharpoonup> string" where
  "sample_labels = [0 \<mapsto> ''car'', 1 \<mapsto> ''Ambulance'', 2 \<mapsto> ''bus'']"

definition sample_detection :: "int \<Rightarrow> rat \<Rightarrow> detection" where
  "sample_detection classidx c = \<lparr>xyxy = (10, 20, 30, 40), cls = classidx, conf = c\<rparr>"

definition sample_frame :: frame where
  "sample_frame = \<lparr>picture = ''road.jpg'', resized = None, overlay = []\<rparr>"

definition sample_env :: "nat \<Rightarrow> env" where
  "sample_env k =
     \<lparr>path_seps = ''/'', int_max_str_digits = 4300,
      path_exists = (\<lambda>p. p \<in> {''best.pt'', ''road.jpg'', ''d'', ''mixed'', ''mixed/a.jpg'',
                            ''mixed/sub.jpg'', ''mixed/.x.png''}),
      isdir = (\<lambda>p. p \<in> {''d'', ''mixed'', ''mixed/sub.jpg''}),
      isfile = (\<lambda>p. p \<in> {''best.pt'', ''road.jpg'', ''mixed/a.jpg'', ''mixed/.x.png''}),
      listdir = (\<lambda>p. if p = ''d'' then [''a.jpg'', ''b.txt'', ''c.png'']
                      else if p = ''mixed'' then [''a.jpg'', ''sub.jpg'', ''.x.png'']
                      else []),
      glob_magic = (\<lambda>p. []),
      py_float = (\<lambda>s. if s = ''0.5'' then Some (1 / 2) else None),
      int_unicode = (\<lambda>s. if s = [CHR 0xD9, CHR 0xA1, CHR 0xD9, CHR 0xA2] then Some 12 else None),
      yolo = (\<lambda>p. None),
      serial_connects = True,
      serial_write = (\<lambda>n. if n < k then Some SerialException else None),
      names = sample_labels,
      infer = (\<lambda>f. [sample_detection 1 (3 / 4)]),
      imread = (\<lambda>p. \<lparr>picture = p, resized = None, overlay = []\<rparr>),
      cap_read = (\<lambda>n. None),
      wait_key = (\<lambda>n. - 1)\<rparr>"

definition sample_args :: "string \<Rightarrow> args" where
  "sample_args src =
     \<lparr>arg_model = ''best.pt'', arg_source = src, arg_thresh = ''0.5'',
      arg_resolution = None, arg_record = False\<rparr>"

subsection \<open>Counting calls in a trace\<close>

text \<open>
  The events that end a call of \<^verbatim>\<open>send_signal_to_arduino\<close> with three retries: the
  message after a successful write, the diagnostic of a missing connection, and the
  diagnostic of the third failed attempt. Their number in a trace is the number of calls
  made.
\<close>

fun ends_call :: "event \<Rightarrow> bool" where
  "ends_call (Print (Signal_sent s)) = True"
| "ends_call (Print Connection_not_available) = True"
| "ends_call (Print (Error_sending n x)) = (n = 3)"
| "ends_call ev = False"

definition calls_made :: "event list \<Rightarrow> nat" where
  "calls_made tr = length (filter ends_call tr)"

section \<open>Properties\<close>

subsection \<open>Colours\<close>

text \<open>
  C7. The colour of a class is the palette entry at the class index modulo 4, the length of
  the palette; the index is always inside the palette. Two class indices that are
  congruent modulo 4 get the same colour, as 0 and 4, and 1 and 5.
\<close>

theorem color_by_class_index_mod_4:
  "length bbox_colors = 4 \<and>
   nat (i mod 4) < length bbox_colors \<and>
   box_color i = bbox_colors ! nat (i mod 4) \<and>
   (i mod 4 = j mod 4 \<longrightarrow> box_color i = box_color j) \<and>
   box_color 0 = box_color 4 \<and> box_color 1 = box_color 5"
  by (simp add: box_color_def bbox_colors_def)

theorem color_by_class_index_mod_4_witness:
  "(2::int) mod 4 = 6 mod 4 \<and> box_color 2 = box_color 6 \<and> box_color 2 = (93, 97, 209)"
  using color_by_class_index_mod_4 [of 2 6] by (simp add: box_color_def bbox_colors_def)

subsection \<open>Signalling\<close>

lemma send_attempts_3_cases:
  "send_attempts e s i 3 st =
     (case serial_write e (writes st) of
        None \<Rightarrow> st\<lparr>writes := writes st + 1,
                    trace := trace st @ [SerialWrite s, Print (Signal_sent s)]\<rparr>
      | Some x1 \<Rightarrow>
          (case serial_write e (writes st + 1) of
             None \<Rightarrow> st\<lparr>writes := writes st + 2,
                         trace := trace st @
                           [SerialWrite s, Print (Error_sending (i + 1) x1), Sleep 1,
                            SerialWrite s, Print (Signal_sent s)]\<rparr>
           | Some x2 \<Rightarrow>
               (case serial_write e (writes st + 2) of
                  None \<Rightarrow> st\<lparr>writes := writes st + 3,
                              trace := trace st @
                                [SerialWrite s, Print (Error_sending (i + 1) x1), Sleep 1,
                                 SerialWrite s, Print (Error_sending (i + 2) x2), Sleep 1,
                                 SerialWrite s, Print (Signal_sent s)]\<rparr>
                | Some x3 \<Rightarrow> st\<lparr>writes := writes st + 3,
                              trace := trace st @
                                [SerialWrite s, Print (Error_sending (i + 1) x1), Sleep 1,
                                 SerialWrite s, Print (Error_sending (i + 2) x2), Sleep 1,
                                 SerialWrite s, Print (Error_sending (i + 3) x3), Sleep 1]\<rparr>)))"
  by (simp add: numeral_3_eq_3 arduino_write_def log_def split: option.splits)

lemma process_detections_raises:
  "process_detections labels th ds p = Inl x \<Longrightarrow> x = KeyError"
proof (induction ds arbitrary: p)
  case Nil
  then show ?case by (cases p) simp
next
  case (Cons d ds)
  then show ?case by (cases p) (auto split: option.splits if_splits)
qed

lemma iteration_exits:
  assumes "iteration e a st = Exit x st'"
  shows "x = SysExit 0 \<or> x = Uncaught NameError \<or> x = Uncaught KeyError"
proof -
  have sp: "show_and_poll e a fr s \<noteq> Exit x st'" for fr s
    by (simp add: show_and_poll_def Let_def)
  from assms show ?thesis
    by (auto simp: iteration_def detect_and_signal_def sp
        split: prod.splits acquired.splits option.splits sum.splits if_splits
        dest: process_detections_raises)
qed

text \<open>
  C3. With an open connection, \<^verbatim>\<open>send_signal_to_arduino\<close> (three retries, the default)
  writes until the first success and at most three times: what it does is fixed by the
  outcomes of the next three writes. A failed write is followed by its diagnostic and a
  sleep of 1; a successful one by its message and nothing else. The exception of a failed
  write is consumed by the handler: the function returns a state in every case, and an
  iteration of the loop never ends with a serial exception. Without a connection, or with
  a closed one, only the diagnostic is printed.
\<close>

theorem notify_bounded_retries:
  "(arduino st = Some True \<longrightarrow>
      (serial_write e (writes st) = None \<longrightarrow>
         send_signal_to_arduino e s 3 st =
           st\<lparr>writes := writes st + 1,
              trace := trace st @ [SerialWrite s, Print (Signal_sent s)]\<rparr>) \<and>
      (serial_write e (writes st) = Some x1 \<and> serial_write e (writes st + 1) = None \<longrightarrow>
         send_signal_to_arduino e s 3 st =
           st\<lparr>writes := writes st + 2,
              trace := trace st @
                [SerialWrite s, Print (Error_sending 1 x1), Sleep 1,
                 SerialWrite s, Print (Signal_sent s)]\<rparr>) \<and>
      (serial_write e (writes st) = Some x1 \<and> serial_write e (writes st + 1) = Some x2 \<and>
       serial_write e (writes st + 2) = None \<longrightarrow>
         send_signal_to_arduino e s 3 st =
           st\<lparr>writes := writes st + 3,
              trace := trace st @
                [SerialWrite s, Print (Error_sending 1 x1), Sleep 1,
                 SerialWrite s, Print (Error_sending 2 x2), Sleep 1,
                 SerialWrite s, Print (Signal_sent s)]\<rparr>) \<and>
      (serial_write e (writes st) = Some x1 \<and> serial_write e (writes st + 1) = Some x2 \<and>
       serial_write e (writes st + 2) = Some x3 \<longrightarrow>
         send_signal_to_arduino e s 3 st =
           st\<lparr>writes := writes st + 3,
              trace := trace st @
                [SerialWrite s, Print (Error_sending 1 x1), Sleep 1,
                 SerialWrite s, Print (Error_sending 2 x2), Sleep 1,
                 SerialWrite s, Print (Error_sending 3 x3), Sleep 1]\<rparr>)) \<and>
   (arduino st \<noteq> Some True \<longrightarrow>
      send_signal_to_arduino e s 3 st =
        st\<lparr>trace := trace st @ [Print Connection_not_available]\<rparr>) \<and>
   writes (send_signal_to_arduino e s 3 st) \<le> writes st + 3 \<and>
   iteration e a st \<noteq> Exit (Uncaught SerialException) st'"
proof -
  have closed: "arduino st \<noteq> Some True \<longrightarrow>
      send_signal_to_arduino e s 3 st =
        st\<lparr>trace := trace st @ [Print Connection_not_available]\<rparr>"
    by (simp add: send_signal_to_arduino_def log_def)
  have bound: "writes (send_signal_to_arduino e s 3 st) \<le> writes st + 3"
    by (simp add: send_signal_to_arduino_def send_attempts_3_cases log_def split: option.splits)
  have loop: "iteration e a st \<noteq> Exit (Uncaught SerialException) st'"
    using iteration_exits [of e a st] by fastforce
  have "open": "arduino st = Some True \<Longrightarrow>
      send_signal_to_arduino e s 3 st = send_attempts e s 0 3 st"
    by (simp add: send_signal_to_arduino_def)
  show ?thesis
    using closed bound loop by (simp add: "open" send_attempts_3_cases)
qed

theorem notify_bounded_retries_witness:
  "trace (send_signal_to_arduino (sample_env 0) ''A'' 3 (init_state\<lparr>arduino := Some True\<rparr>)) =
     [SerialWrite ''A'', Print (Signal_sent ''A'')] \<and>
   trace (send_signal_to_arduino (sample_env 1) ''A'' 3 (init_state\<lparr>arduino := Some True\<rparr>)) =
     [SerialWrite ''A'', Print (Error_sending 1 SerialException), Sleep 1,
      SerialWrite ''A'', Print (Signal_sent ''A'')] \<and>
   trace (send_signal_to_arduino (sample_env 2) ''A'' 3 (init_state\<lparr>arduino := Some True\<rparr>)) =
     [SerialWrite ''A'', Print (Error_sending 1 SerialException), Sleep 1,
      SerialWrite ''A'', Print (Error_sending 2 SerialException), Sleep 1,
      SerialWrite ''A'', Print (Signal_sent ''A'')] \<and>
   trace (send_signal_to_arduino (sample_env 3) ''A'' 3 (init_state\<lparr>arduino := Some True\<rparr>)) =
     [SerialWrite ''A'', Print (Error_sending 1 SerialException), Sleep 1,
      SerialWrite ''A'', Print (Error_sending 2 SerialException), Sleep 1,
      SerialWrite ''A'', Print (Error_sending 3 SerialException), Sleep 1] \<and>
   trace (send_signal_to_arduino (sample_env 3) ''A'' 3 (init_state\<lparr>arduino := Some False\<rparr>)) =
     [Print Connection_not_available] \<and>
   trace (send_signal_to_arduino (sample_env 3) ''A'' 3 init_state) =
     [Print Connection_not_available]"
  using
    notify_bounded_retries [where st = "init_state\<lparr>arduino := Some True\<rparr>" and e = "sample_env 0"
      and s = "''A''"]
    notify_bounded_retries [where st = "init_state\<lparr>arduino := Some True\<rparr>" and e = "sample_env 1"
      and s = "''A''" and ?x1.0 = SerialException]
    notify_bounded_retries [where st = "init_state\<lparr>arduino := Some True\<rparr>" and e = "sample_env 2"
      and s = "''A''" and ?x1.0 = SerialException and ?x2.0 = SerialException]
    notify_bounded_retries [where st = "init_state\<lparr>arduino := Some True\<rparr>" and e = "sample_env 3"
      and s = "''A''" and ?x1.0 = SerialException and ?x2.0 = SerialException
      and ?x3.0 = SerialException]
    notify_bounded_retries [where st = "init_state\<lparr>arduino := Some False\<rparr>" and e = "sample_env 3"
      and s = "''A''"]
    notify_bounded_retries [where st = init_state and e = "sample_env 3" and s = "''A''"]
  by (simp add: sample_env_def init_state_def)

subsection \<open>Filtering and annotation\<close>

lemma process_detections_named:
  "\<forall>d \<in> set ds. labels (cls d) \<noteq> None \<Longrightarrow>
   process_detections labels th ds (fr, b) =
     Inr (fr\<lparr>overlay := overlay fr @
                concat (map (\<lambda>d. draw_detection (the (labels (cls d))) d)
                         (filter (\<lambda>d. th < conf d) ds))\<rparr>,
          b \<or> (\<exists>d \<in> set ds. th < conf d \<and> lower (the (labels (cls d))) = ''ambulance''))"
proof (induction ds arbitrary: fr b)
  case Nil
  then show ?case by simp
next
  case (Cons d ds)
  from Cons.prems obtain cn where cn: "labels (cls d) = Some cn" by auto
  from Cons.prems have rest: "\<forall>d \<in> set ds. labels (cls d) \<noteq> None" by simp
  show ?case
  proof (cases "th < conf d")
    case True
    then show ?thesis using cn Cons.IH [OF rest] by auto
  next
    case False
    then show ?thesis using cn Cons.IH [OF rest] by auto
  qed
qed



lemma lower_ambulance: "lower ''ambulance'' = ''ambulance''"
  by code_simp



text \<open>
  C5. When the model has a name for every class it reports, the flag
  \<^verbatim>\<open>ambulance_detected\<close> after the loop over the detections, started from \<^verbatim>\<open>False\<close>,
  is true exactly when some detection above the threshold has a class name that equals
  \<^verbatim>\<open>ambulance\<close> up to the case of its letters. Two passing detections named \<^verbatim>\<open>car\<close> and
  \<^verbatim>\<open>Ambulance\<close> raise it; \<^verbatim>\<open>car\<close> and \<^verbatim>\<open>bus\<close> do not.
\<close>

theorem target_found_iff_passing_ambulance:
  assumes "\<forall>d \<in> set ds. labels (cls d) \<noteq> None"
  shows
    "map_sum id snd (process_detections labels th ds (fr, False)) =
       Inr (\<exists>d \<in> set ds. th < conf d \<and> lower (the (labels (cls d))) = lower ''ambulance'') \<and>
     (ds = [d1, d2] \<and> th < conf d1 \<and> th < conf d2 \<and>
      labels (cls d1) = Some ''car'' \<and> labels (cls d2) = Some ''Ambulance'' \<longrightarrow>
        map_sum id snd (process_detections labels th ds (fr, False)) = Inr True) \<and>
     (ds = [d1, d2] \<and> th < conf d1 \<and> th < conf d2 \<and>
      labels (cls d1) = Some ''car'' \<and> labels (cls d2) = Some ''bus'' \<longrightarrow>
        map_sum id snd (process_detections labels th ds (fr, False)) = Inr False)"
proof -
  have amb: "lower ''Ambulance'' = ''ambulance''" by code_simp
  have car: "lower ''car'' \<noteq> ''ambulance''" by code_simp
  have bus: "lower ''bus'' \<noteq> ''ambulance''" by code_simp
  show ?thesis
    unfolding process_detections_named [OF assms] lower_ambulance
    using amb car bus by auto
qed

theorem target_found_iff_passing_ambulance_witness:
  "map_sum id snd (process_detections sample_labels (1 / 2)
      [sample_detection 0 (3 / 4), sample_detection 1 (7 / 8)] (sample_frame, False)) = Inr True \<and>
   map_sum id snd (process_detections sample_labels (1 / 2)
      [sample_detection 0 (3 / 4), sample_detection 2 (7 / 8)] (sample_frame, False)) = Inr False \<and>
   map_sum id snd (process_detections sample_labels (1 / 2)
      [sample_detection 0 (3 / 4), sample_detection 1 (1 / 2)] (sample_frame, False)) = Inr False"
proof -
  have n1: "\<forall>d \<in> set [sample_detection 0 (3 / 4), sample_detection 1 (7 / 8)].
              sample_labels (cls d) \<noteq> None"
    by (simp add: sample_labels_def sample_detection_def)
  have n2: "\<forall>d \<in> set [sample_detection 0 (3 / 4), sample_detection 2 (7 / 8)].
              sample_labels (cls d) \<noteq> None"
    by (simp add: sample_labels_def sample_detection_def)
  have n3: "\<forall>d \<in> set [sample_detection 0 (3 / 4), sample_detection 1 (1 / 2)].
              sample_labels (cls d) \<noteq> None"
    by (simp add: sample_labels_def sample_detection_def)
  show ?thesis
    using
      target_found_iff_passing_ambulance [OF n1, where th = "1 / 2" and fr = sample_frame
        and ?d1.0 = "sample_detection 0 (3 / 4)" and ?d2.0 = "sample_detection 1 (7 / 8)"]
      target_found_iff_passing_ambulance [OF n2, where th = "1 / 2" and fr = sample_frame
        and ?d1.0 = "sample_detection 0 (3 / 4)" and ?d2.0 = "sample_detection 2 (7 / 8)"]
      target_found_iff_passing_ambulance [OF n3, where th = "1 / 2" and fr = sample_frame
        and ?d1.0 = "sample_detection 0 (3 / 4)" and ?d2.0 = "sample_detection 1 (1 / 2)"]
    by code_simp
qed

subsection \<open>The label\<close>

lemma decimal_snoc: "decimal (ds @ [c]) = 10 * decimal ds + digit_val c"
  by (simp add: decimal_def)

lemma digit_val_char_of: "d < 10 \<Longrightarrow> digit_val (char_of (48 + d :: nat)) = int d"
  by (simp add: digit_val_def)

lemma decimal_digits_of: "decimal (digits_of n) = int n"
proof (induction n rule: digits_of.induct)
  case (1 n)
  show ?case
  proof (cases "n < 10")
    case True
    then show ?thesis
      by (subst digits_of.simps) (simp add: decimal_def digit_val_char_of)
  next
    case False
    with 1 have "decimal (digits_of (n div 10)) = int (n div 10)" by simp
    with False show ?thesis
      by (subst digits_of.simps) (simp add: decimal_snoc digit_val_char_of zdiv_int zmod_int)
  qed
qed

lemma decimal_py_str: "0 \<le> i \<Longrightarrow> decimal (py_str i) = i"
  by (simp add: py_str_def decimal_digits_of)

lemma draw_detection_label:
  "xyxy d = (xmin, ymin, xmax, ymax) \<Longrightarrow>
   PutText (cn @ '': '' @ py_str (py_trunc (conf d * 100)) @ ''%'') (xmin, ymin - 7)
     (box_color (cls d)) \<in> set (draw_detection cn d)"
  by (simp add: draw_detection_def label_text_def)

text \<open>
  C6, as the claim states it, fails: a detection of class \<^verbatim>\<open>car\<close> with confidence
  0.7578125 (97/128, a value both float formats hold exactly, as they hold its product
  with 100) is labelled \<^verbatim>\<open>car: 75%\<close>, while 75.78125 rounded to the nearest integer is
  76.
\<close>

theorem label_percentage_counterexample:
  "process_detections sample_labels (1 / 2) [sample_detection 0 (97 / 128)] (sample_frame, False) =
     Inr (sample_frame\<lparr>overlay :=
            [Rectangle (10, 20) (30, 40) (164, 120, 87) 2,
             PutText ''car: 75%'' (10, 13) (164, 120, 87)]\<rparr>, False) \<and>
   round (97 / 128 * 100 :: rat) = 76"
  by code_simp

text \<open>
  C6, amended. When the model has a name for every class it reports, every detection above
  the threshold gets the label made of its class name, a colon and a space, the decimal
  digits of the confidence times 100 truncated towards zero, and a percent sign, in the
  colour of its class, at the point 7 pixels above the top left corner of its box. For a
  confidence that is not negative the number is the floor of the confidence times 100, and
  the digits shown denote it.
\<close>

theorem label_shows_truncated_percentage:
  assumes "\<forall>d \<in> set ds. labels (cls d) \<noteq> None"
    and "d \<in> set ds" and "th < conf d"
    and "labels (cls d) = Some classname" and "xyxy d = (xmin, ymin, xmax, ymax)"
  shows
    "(case process_detections labels th ds (fr, False) of
        Inl x \<Rightarrow> False
      | Inr (fr', found) \<Rightarrow>
          PutText (classname @ '': '' @ py_str (py_trunc (conf d * 100)) @ ''%'') (xmin, ymin - 7)
            (box_color (cls d)) \<in> set (overlay fr')) \<and>
     (0 \<le> conf d \<longrightarrow>
        py_trunc (conf d * 100) = \<lfloor>conf d * 100\<rfloor> \<and>
        decimal (py_str (py_trunc (conf d * 100))) = \<lfloor>conf d * 100\<rfloor>) \<and>
     (conf d < 0 \<longrightarrow> py_trunc (conf d * 100) = \<lceil>conf d * 100\<rceil>)"
proof -
  have "PutText (classname @ '': '' @ py_str (py_trunc (conf d * 100)) @ ''%'') (xmin, ymin - 7)
          (box_color (cls d)) \<in> set (draw_detection (the (labels (cls d))) d)"
    using draw_detection_label [OF assms(5), of classname] assms(4) by simp
  with assms(2,3) have drawn:
    "PutText (classname @ '': '' @ py_str (py_trunc (conf d * 100)) @ ''%'') (xmin, ymin - 7)
       (box_color (cls d))
     \<in> set (concat (map (\<lambda>d. draw_detection (the (labels (cls d))) d)
                       (filter (\<lambda>d. th < conf d) ds)))"
    by auto
  have nonneg: "0 \<le> conf d \<Longrightarrow> py_trunc (conf d * 100) = \<lfloor>conf d * 100\<rfloor>"
    by (simp add: py_trunc_def)
  have neg: "conf d < 0 \<Longrightarrow> py_trunc (conf d * 100) = \<lceil>conf d * 100\<rceil>"
    by (simp add: py_trunc_def mult_less_0_iff)
  have dec: "0 \<le> conf d \<Longrightarrow> decimal (py_str (py_trunc (conf d * 100))) = \<lfloor>conf d * 100\<rfloor>"
    by (simp add: nonneg decimal_py_str)
  show ?thesis
    unfolding process_detections_named [OF assms(1)]
    using drawn nonneg neg dec by simp
qed

theorem label_shows_truncated_percentage_witness:
  "process_detections sample_labels (1 / 2)
     [sample_detection 2 (1 / 4), sample_detection 0 (97 / 128)] (sample_frame, False) =
     Inr (sample_frame\<lparr>overlay :=
            [Rectangle (10, 20) (30, 40) (164, 120, 87) 2,
             PutText ''car: 75%'' (10, 13) (164, 120, 87)]\<rparr>, False) \<and>
   \<lfloor>97 / 128 * 100 :: rat\<rfloor> = 75 \<and> decimal ''75'' = 75"
proof -
  let ?ds = "[sample_detection 2 (1 / 4), sample_detection 0 (97 / 128)]"
  have named: "\<forall>d \<in> set ?ds. sample_labels (cls d) \<noteq> None"
    by (simp add: sample_labels_def sample_detection_def)
  have mem: "sample_detection 0 (97 / 128) \<in> set ?ds" by simp
  have pass: "1 / 2 < conf (sample_detection 0 (97 / 128))" by (simp add: sample_detection_def)
  have name: "sample_labels (cls (sample_detection 0 (97 / 128))) = Some ''car''"
    by (simp add: sample_labels_def sample_detection_def)
  have box: "xyxy (sample_detection 0 (97 / 128)) = (10, 20, 30, 40)"
    by (simp add: sample_detection_def)
  show ?thesis
    using label_shows_truncated_percentage [OF named mem pass name box, where fr = sample_frame]
    by code_simp
qed

subsection \<open>One signal for a frame\<close>

lemma calls_made_append: "calls_made (xs @ ys) = calls_made xs + calls_made ys"
  by (simp add: calls_made_def)

lemma send_signal_one_call:
  "calls_made (trace (send_signal_to_arduino e s 3 st)) = calls_made (trace st) + 1"
  by (simp add: send_signal_to_arduino_def send_attempts_3_cases log_def calls_made_append
      split: option.splits) (simp add: calls_made_def)

lemma iteration_one_call:
  "(case iteration e a st of
      Continue st' \<Rightarrow> calls_made (trace st') \<le> calls_made (trace st) + 1
    | Break st' \<Rightarrow> calls_made (trace st') \<le> calls_made (trace st) + 1
    | Exit x st' \<Rightarrow> calls_made (trace st') \<le> calls_made (trace st) + 1)"
proof -
  have lf: "calls_made (trace (snd (load_frame e st))) = calls_made (trace st)"
    by (simp add: load_frame_def log_def calls_made_def split: list.splits option.splits)
  have ds: "detect_and_signal e ds fr s = Inr (fr', s') \<Longrightarrow>
            calls_made (trace s') \<le> calls_made (trace s) + 1" for ds fr s fr' s'
    by (auto simp: detect_and_signal_def send_signal_one_call split: sum.splits if_splits)
  have sp: "(case show_and_poll e a fr s of
      Continue st' \<Rightarrow> calls_made (trace st') = calls_made (trace s)
    | Break st' \<Rightarrow> calls_made (trace st') = calls_made (trace s)
    | Exit x st' \<Rightarrow> calls_made (trace st') = calls_made (trace s))" for fr s
    by (simp add: show_and_poll_def Let_def log_def calls_made_def)
  show ?thesis
  proof (cases "load_frame e st")
    case (Pair acq st1)
    with lf have st1: "calls_made (trace st1) = calls_made (trace st)" by simp
    show ?thesis
    proof (cases acq)
      case (Frame fr)
      show ?thesis
      proof (cases "if resize st1 then map_option (\<lambda>wh. fr\<lparr>resized := Some wh\<rparr>) (res st1)
                    else Some fr")
        case None
        then show ?thesis using Pair Frame st1 by (simp add: iteration_def)
      next
        case (Some fr1)
        show ?thesis
        proof (cases "detect_and_signal e (infer e fr1) fr1 st1")
          case (Inl x)
          then show ?thesis using Pair Frame Some st1 by (simp add: iteration_def)
        next
          case (Inr r)
          obtain fr2 st2 where r: "r = (fr2, st2)" by (cases r)
          from ds [where ds = "infer e fr1" and fr = fr1 and s = st1 and fr' = fr2 and s' = st2]
            Inr r st1
          have "calls_made (trace st2) \<le> calls_made (trace st) + 1" by simp
          with sp [where fr = fr2 and s = st2] show ?thesis
            using Pair Frame Some Inr r by (simp add: iteration_def split: step.splits)
        qed
      qed
    qed (use Pair st1 in \<open>simp_all add: iteration_def\<close>)
  qed
qed

text \<open>
  C10. When the model has a name for every class it reports, lines 135 to 156 leave the
  state as one call of \<^verbatim>\<open>send_signal_to_arduino('A')\<close> leaves it if some detection
  above the threshold is an ambulance, and unchanged otherwise, however many such
  detections there are: the number of calls in the trace grows by one or by nothing. For
  any frame and any model, an iteration of the loop adds at most one call to the trace.
\<close>

theorem one_signal_per_iteration:
  assumes "\<forall>d \<in> set ds. names e (cls d) \<noteq> None"
  shows
    "map_sum id snd (detect_and_signal e ds fr st) =
       Inr (if \<exists>d \<in> set ds. min_thresh st < conf d \<and> lower (the (names e (cls d))) = ''ambulance''
            then send_signal_to_arduino e ''A'' 3 st else st) \<and>
     map_sum id (calls_made \<circ> trace \<circ> snd) (detect_and_signal e ds fr st) =
       Inr (calls_made (trace st) +
            (if \<exists>d \<in> set ds. min_thresh st < conf d \<and> lower (the (names e (cls d))) = ''ambulance''
             then 1 else 0)) \<and>
     (case iteration e a st of
        Continue st' \<Rightarrow> calls_made (trace st') \<le> calls_made (trace st) + 1
      | Break st' \<Rightarrow> calls_made (trace st') \<le> calls_made (trace st) + 1
      | Exit x st' \<Rightarrow> calls_made (trace st') \<le> calls_made (trace st) + 1)"
  unfolding detect_and_signal_def process_detections_named [OF assms]
  using iteration_one_call [where e = e and a = a and st = st]
  by (simp add: send_signal_one_call)

theorem one_signal_per_iteration_witness:
  "map_sum id (trace \<circ> snd)
     (detect_and_signal (sample_env 0)
        [sample_detection 1 (3 / 4), sample_detection 0 (7 / 8), sample_detection 1 (9 / 10)]
        sample_frame (init_state\<lparr>arduino := Some True, min_thresh := 1 / 2\<rparr>)) =
     Inr [SerialWrite ''A'', Print (Signal_sent ''A'')] \<and>
   map_sum id (trace \<circ> snd)
     (detect_and_signal (sample_env 0)
        [sample_detection 1 (3 / 4), sample_detection 0 (7 / 8), sample_detection 1 (9 / 10)]
        sample_frame (init_state\<lparr>min_thresh := 1 / 2\<rparr>)) =
     Inr [Print Connection_not_available]"
proof -
  let ?ds = "[sample_detection 1 (3 / 4), sample_detection 0 (7 / 8), sample_detection 1 (9 / 10)]"
  have named: "\<forall>d \<in> set ?ds. names (sample_env 0) (cls d) \<noteq> None"
    by (simp add: sample_env_def sample_labels_def sample_detection_def)
  show ?thesis
    using one_signal_per_iteration [OF named,
        where st = "init_state\<lparr>arduino := Some True, min_thresh := 1 / 2\<rparr>" and fr = sample_frame]
      one_signal_per_iteration [OF named,
        where st = "init_state\<lparr>min_thresh := 1 / 2\<rparr>" and fr = sample_frame]
    by code_simp
qed

subsection \<open>Source classification\<close>






















subsection \<open>Startup validation\<close>















subsection \<open>The queue of an image directory\<close>



text \<open>
  C8, as the claim states it, fails: the queue is not exactly the files directly under the
  path that have an image extension. For the directory \<^verbatim>\<open>mixed\<close>, which holds the
  picture \<^verbatim>\<open>a.jpg\<close>, a subdirectory named \<^verbatim>\<open>sub.jpg\<close> and the hidden picture
  \<^verbatim>\<open>.x.png\<close>, the queue is \<^verbatim>\<open>mixed/a.jpg\<close>, \<^verbatim>\<open>mixed/sub.jpg\<close>: it holds the
  subdirectory, which is no file, and leaves out the hidden picture, a file directly under
  the path with the extension \<^verbatim>\<open>.png\<close>.
\<close>

theorem folder_queue_counterexample:
  "map_sum fst imgs_list (startup (sample_env 0) (sample_args ''mixed'')) =
     Inr [''mixed/a.jpg'', ''mixed/sub.jpg''] \<and>
   isdir (sample_env 0) ''mixed/sub.jpg'' \<and> \<not> isfile (sample_env 0) ''mixed/sub.jpg'' \<and>
   ''.x.png'' \<in> set (listdir (sample_env 0) ''mixed'') \<and>
   isfile (sample_env 0) ''mixed/.x.png'' \<and>
   snd (splitext ''/'' ''mixed/.x.png'') = ''.png''"
  by code_simp



subsection \<open>Cleanup\<close>

lemma opened_append: "opened (xs @ ys) = opened xs @ opened ys"
  by (simp add: opened_def List.map_filter_def)

lemma released_append: "released (xs @ ys) = released xs @ released ys"
  by (simp add: released_def List.map_filter_def)

lemma opened_Nil: "opened [] = []"
  by (simp add: opened_def)

lemma released_Nil: "released [] = []"
  by (simp add: released_def)

lemma opened_Cons:
  "opened (ev # tr) =
     (case resource_of ev of Some (r, True) \<Rightarrow> [r] | _ \<Rightarrow> []) @ opened tr"
  by (simp add: opened_def split: option.splits bool.splits)

lemma released_Cons:
  "released (ev # tr) =
     (case resource_of ev of Some (r, False) \<Rightarrow> [r] | _ \<Rightarrow> []) @ released tr"
  by (simp add: released_def split: option.splits bool.splits)

lemmas ledger_simps =
  opened_append released_append opened_Nil released_Nil opened_Cons released_Cons

lemma opened_log:
  "opened (trace (log ev st)) =
     opened (trace st) @ (case resource_of ev of Some (r, True) \<Rightarrow> [r] | _ \<Rightarrow> [])"
  by (simp add: log_def ledger_simps)

lemma released_log:
  "released (trace (log ev st)) =
     released (trace st) @ (case resource_of ev of Some (r, False) \<Rightarrow> [r] | _ \<Rightarrow> [])"
  by (simp add: log_def ledger_simps)

lemma log_fields:
  "cap (log ev st) = cap st" "arduino (log ev st) = arduino st"
  by (simp_all add: log_def)

lemma send_signal_keeps:
  "opened (trace (send_signal_to_arduino e s 3 st)) = opened (trace st) \<and>
   released (trace (send_signal_to_arduino e s 3 st)) = released (trace st) \<and>
   cap (send_signal_to_arduino e s 3 st) = cap st \<and>
   arduino (send_signal_to_arduino e s 3 st) = arduino st"
  by (simp add: send_signal_to_arduino_def send_attempts_3_cases log_def ledger_simps
      split: option.splits)

lemma load_frame_keeps:
  "opened (trace (snd (load_frame e st))) = opened (trace st) \<and>
   released (trace (snd (load_frame e st))) = released (trace st) \<and>
   cap (snd (load_frame e st)) = cap st \<and> arduino (snd (load_frame e st)) = arduino st"
  by (simp add: load_frame_def log_def ledger_simps split: list.splits option.splits)

lemma detect_and_signal_keeps:
  "detect_and_signal e ds fr st = Inr (fr', st') \<Longrightarrow>
   opened (trace st') = opened (trace st) \<and> released (trace st') = released (trace st) \<and>
   cap st' = cap st \<and> arduino st' = arduino st"
  by (auto simp: detect_and_signal_def send_signal_keeps split: sum.splits if_splits)

lemma show_and_poll_keeps:
  "opened (trace (state_of (show_and_poll e a fr st))) = opened (trace st) \<and>
   released (trace (state_of (show_and_poll e a fr st))) = released (trace st) \<and>
   cap (state_of (show_and_poll e a fr st)) = cap st \<and>
   arduino (state_of (show_and_poll e a fr st)) = arduino st"
  by (simp add: show_and_poll_def Let_def log_def ledger_simps)

lemma iteration_keeps:
  "opened (trace (state_of (iteration e a st))) = opened (trace st) \<and>
   released (trace (state_of (iteration e a st))) = released (trace st) \<and>
   cap (state_of (iteration e a st)) = cap st \<and>
   arduino (state_of (iteration e a st)) = arduino st"
proof (cases "load_frame e st")
  case (Pair acq st1)
  with load_frame_keeps [of e st]
  have st1: "opened (trace st1) = opened (trace st) \<and> released (trace st1) = released (trace st) \<and>
             cap st1 = cap st \<and> arduino st1 = arduino st"
    by simp
  show ?thesis
  proof (cases acq)
    case (Frame fr)
    show ?thesis
    proof (cases "if resize st1 then map_option (\<lambda>wh. fr\<lparr>resized := Some wh\<rparr>) (res st1)
                  else Some fr")
      case None
      then show ?thesis using Pair Frame st1 by (simp add: iteration_def)
    next
      case (Some fr1)
      show ?thesis
      proof (cases "detect_and_signal e (infer e fr1) fr1 st1")
        case (Inl x)
        then show ?thesis using Pair Frame Some st1 by (simp add: iteration_def)
      next
        case (Inr r)
        obtain fr2 st2 where r: "r = (fr2, st2)" by (cases r)
        from detect_and_signal_keeps [of e "infer e fr1" fr1 st1 fr2 st2] Inr r st1
        have "opened (trace st2) = opened (trace st) \<and> released (trace st2) = released (trace st) \<and>
              cap st2 = cap st \<and> arduino st2 = arduino st"
          by simp
        with show_and_poll_keeps [of e a fr2 st2] show ?thesis
          using Pair Frame Some Inr r by (simp add: iteration_def)
      qed
    qed
  qed (use Pair st1 in \<open>simp_all add: iteration_def\<close>)
qed

lemma run_loop_keeps:
  "opened (trace (snd (run_loop e a n st))) = opened (trace st) \<and>
   released (trace (snd (run_loop e a n st))) = released (trace st) \<and>
   cap (snd (run_loop e a n st)) = cap st \<and> arduino (snd (run_loop e a n st)) = arduino st"
proof (induction n arbitrary: st)
  case 0
  show ?case by simp
next
  case (Suc n)
  show ?case
  proof (cases "iteration e a st")
    case (Continue st1)
    with iteration_keeps [of e a st] Suc.IH [of st1] show ?thesis by simp
  next
    case (Break st1)
    with iteration_keeps [of e a st] show ?thesis by simp
  next
    case (Exit x st1)
    with iteration_keeps [of e a st] show ?thesis by simp
  qed
qed

lemma init_serial_resources:
  "opened (trace (init_serial e init_state)) = (if serial_connects e then [Serial] else []) \<and>
   released (trace (init_serial e init_state)) = [] \<and>
   \<not> cap (init_serial e init_state) \<and>
   (arduino (init_serial e init_state) \<noteq> None) = serial_connects e"
  by (auto simp: init_serial_def init_state_def log_def ledger_simps)

lemma parse_inputs_keeps:
  "parse_inputs e a st = Inl (x, st') \<Longrightarrow> released (trace st') = released (trace st)"
  "parse_inputs e a st = Inr st' \<Longrightarrow>
     opened (trace st') = opened (trace st) \<and> released (trace st') = released (trace st) \<and>
     cap st' = cap st \<and> arduino st' = arduino st"
  by (auto simp: parse_inputs_def split: option.splits)

lemma check_model_keeps:
  "check_model e a st = Inl (x, st') \<Longrightarrow> released (trace st') = released (trace st)"
  "check_model e a st = Inr st' \<Longrightarrow>
     opened (trace st') = opened (trace st) \<and> released (trace st') = released (trace st) \<and>
     cap st' = cap st \<and> arduino st' = arduino st"
  by (auto simp: check_model_def released_log split: if_splits)

lemma load_model_keeps:
  "load_model e a st = Inl (x, st') \<Longrightarrow> released (trace st') = released (trace st)"
  "load_model e a st = Inr st' \<Longrightarrow>
     opened (trace st') = opened (trace st) \<and> released (trace st') = released (trace st) \<and>
     cap st' = cap st \<and> arduino st' = arduino st"
  by (auto simp: load_model_def split: option.splits)

lemma released_prints: "released (tr @ map Print msgs) = released tr"
  by (induction msgs arbitrary: tr) (simp_all add: ledger_simps)

lemma determine_input_type_keeps:
  "determine_input_type e a st = Inl (x, st') \<Longrightarrow> released (trace st') = released (trace st)"
  "determine_input_type e a st = Inr st' \<Longrightarrow>
     opened (trace st') = opened (trace st) \<and> released (trace st') = released (trace st) \<and>
     cap st' = cap st \<and> arduino st' = arduino st"
  by (auto simp: determine_input_type_def released_prints split: sum.splits prod.splits)

lemma handle_resolution_keeps:
  "handle_resolution e a st = Inl (x, st') \<Longrightarrow> released (trace st') = released (trace st)"
  "handle_resolution e a st = Inr st' \<Longrightarrow>
     opened (trace st') = opened (trace st) \<and> released (trace st') = released (trace st) \<and>
     cap st' = cap st \<and> arduino st' = arduino st"
  by (auto simp: handle_resolution_def split: option.splits sum.splits if_splits)

lemma recording_setup_keeps:
  "recording_setup a st = Inl (x, st') \<Longrightarrow> released (trace st') = released (trace st)"
  "recording_setup a st = Inr st' \<Longrightarrow>
     opened (trace st') = opened (trace st) @ (if arg_record a then [Recorder] else []) \<and>
     released (trace st') = released (trace st) \<and>
     cap st' = cap st \<and> arduino st' = arduino st"
  by (auto simp: recording_setup_def opened_log released_log log_fields
      split: option.splits if_splits)

lemma open_source_keeps:
  "open_source e a st = Inl (x, st') \<Longrightarrow> released (trace st') = released (trace st)"
  "open_source e a st = Inr st' \<Longrightarrow> \<not> cap st \<Longrightarrow>
     opened (trace st') = opened (trace st) @ (if cap st' then [Capture] else []) \<and>
     released (trace st') = released (trace st) \<and> arduino st' = arduino st"
  by (auto simp: open_source_def Let_def opened_log released_log log_fields
      split: option.splits if_splits prod.splits)

lemma then_do_cases:
  "then_do r f = Inl (x, st') \<Longrightarrow>
     r = Inl (x, st') \<or> (\<exists>st1. r = Inr st1 \<and> f st1 = Inl (x, st'))"
  "then_do r f = Inr st' \<Longrightarrow> \<exists>st1. r = Inr st1 \<and> f st1 = Inr st'"
  by (auto simp: then_do_def split: sum.splits)

lemma startup_exit_releases_nothing:
  assumes "startup e a = Inl (x, st)"
  shows "released (trace st) = []"
proof -
  let ?st0 = "init_serial e init_state"
  have r0: "released (trace ?st0) = []" using init_serial_resources [of e] by simp
  from assms [unfolded startup_def]
  consider
      (parse) "parse_inputs e a ?st0 = Inl (x, st)"
    | (model) st1 where "parse_inputs e a ?st0 = Inr st1" "check_model e a st1 = Inl (x, st)"
    | (load) st1 st2 where "parse_inputs e a ?st0 = Inr st1" "check_model e a st1 = Inr st2"
        "load_model e a st2 = Inl (x, st)"
    | (input) st1 st2 st3 where "parse_inputs e a ?st0 = Inr st1" "check_model e a st1 = Inr st2"
        "load_model e a st2 = Inr st3" "determine_input_type e a st3 = Inl (x, st)"
    | (resol) st1 st2 st3 st4 where "parse_inputs e a ?st0 = Inr st1"
        "check_model e a st1 = Inr st2" "load_model e a st2 = Inr st3"
        "determine_input_type e a st3 = Inr st4" "handle_resolution e a st4 = Inl (x, st)"
    | (rec) st1 st2 st3 st4 st5 where "parse_inputs e a ?st0 = Inr st1"
        "check_model e a st1 = Inr st2" "load_model e a st2 = Inr st3"
        "determine_input_type e a st3 = Inr st4" "handle_resolution e a st4 = Inr st5"
        "recording_setup a st5 = Inl (x, st)"
    | (src) st1 st2 st3 st4 st5 st6 where "parse_inputs e a ?st0 = Inr st1"
        "check_model e a st1 = Inr st2" "load_model e a st2 = Inr st3"
        "determine_input_type e a st3 = Inr st4" "handle_resolution e a st4 = Inr st5"
        "recording_setup a st5 = Inr st6" "open_source e a st6 = Inl (x, st)"
    by (auto simp: then_do_def split: sum.splits)
  then show ?thesis
  proof cases
    case parse
    then show ?thesis using r0 parse_inputs_keeps(1) by metis
  next
    case model
    then show ?thesis using r0 parse_inputs_keeps(2) check_model_keeps(1) by metis
  next
    case load
    then show ?thesis
      using r0 parse_inputs_keeps(2) check_model_keeps(2) load_model_keeps(1) by metis
  next
    case input
    then show ?thesis
      using r0 parse_inputs_keeps(2) check_model_keeps(2) load_model_keeps(2)
        determine_input_type_keeps(1) by metis
  next
    case resol
    then show ?thesis
      using r0 parse_inputs_keeps(2) check_model_keeps(2) load_model_keeps(2)
        determine_input_type_keeps(2) handle_resolution_keeps(1) by metis
  next
    case rec
    then show ?thesis
      using r0 parse_inputs_keeps(2) check_model_keeps(2) load_model_keeps(2)
        determine_input_type_keeps(2) handle_resolution_keeps(2) recording_setup_keeps(1)
      by metis
  next
    case src
    then show ?thesis
      using r0 parse_inputs_keeps(2) check_model_keeps(2) load_model_keeps(2)
        determine_input_type_keeps(2) handle_resolution_keeps(2) recording_setup_keeps(2)
        open_source_keeps(1)
      by metis
  qed
qed

lemma startup_resources:
  assumes "startup e a = Inr st"
  shows "opened (trace st) =
           (if serial_connects e then [Serial] else []) @
           (if arg_record a then [Recorder] else []) @
           (if cap st then [Capture] else []) \<and>
         released (trace st) = [] \<and> (arduino st \<noteq> None) = serial_connects e"
proof -
  let ?st0 = "init_serial e init_state"
  from assms [unfolded startup_def]
  obtain st1 st2 st3 st4 st5 st6 where
    s: "parse_inputs e a ?st0 = Inr st1" "check_model e a st1 = Inr st2"
       "load_model e a st2 = Inr st3"
       "determine_input_type e a st3 = Inr st4" "handle_resolution e a st4 = Inr st5"
       "recording_setup a st5 = Inr st6" "open_source e a st6 = Inr st"
    by (auto simp: then_do_def split: sum.splits)
  note i = init_serial_resources [of e]
  note k1 = parse_inputs_keeps(2) [OF s(1)]
  note k2 = check_model_keeps(2) [OF s(2)]
  note k3 = load_model_keeps(2) [OF s(3)]
  note k4 = determine_input_type_keeps(2) [OF s(4)]
  note k5 = handle_resolution_keeps(2) [OF s(5)]
  note k6 = recording_setup_keeps(2) [OF s(6)]
  from i k1 k2 k3 k4 k5 k6 have nc: "\<not> cap st6" by simp
  note k7 = open_source_keeps(2) [OF s(7) nc]
  from i k1 k2 k3 k4 k5 k6 k7 show ?thesis by simp
qed

lemma cleanup_resources:
  "opened (trace (cleanup a st)) = opened (trace st) \<and>
   released (trace (cleanup a st)) =
     released (trace st) @ (if cap st then [Capture] else []) @
     (if arg_record a then [Recorder] else []) @ [Display] @
     (if arduino st \<noteq> None then [Serial] else [])"
  by (simp add: cleanup_def Let_def log_def ledger_simps)

text \<open>
  The cleanup block runs after a \<^verbatim>\<open>break\<close> and only then. A run that leaves the loop by
  \<^verbatim>\<open>break\<close> (the end of a video or camera stream, the quit key) has opened the serial
  connection if the device answered, the recorder if recording was asked for and the
  capture if the source is a video or a camera, and has released each of them once, and
  the display once. A run that ends in any other way, or is still going, has released
  nothing.
\<close>

lemma main_resources:
  "(fst (main e a n) = Finished \<longrightarrow>
      opened (trace (snd (main e a n))) =
        (if serial_connects e then [Serial] else []) @
        (if arg_record a then [Recorder] else []) @
        (if cap (snd (main e a n)) then [Capture] else []) \<and>
      released (trace (snd (main e a n))) =
        (if cap (snd (main e a n)) then [Capture] else []) @
        (if arg_record a then [Recorder] else []) @ [Display] @
        (if serial_connects e then [Serial] else [])) \<and>
   (fst (main e a n) \<noteq> Finished \<longrightarrow> released (trace (snd (main e a n))) = [])"
proof (cases "startup e a")
  case (Inl p)
  obtain x st where p: "p = (x, st)" by (cases p)
  with Inl have "main e a n = (Terminated x, st)" by (simp add: main_def)
  with startup_exit_releases_nothing [of e a x st] Inl p show ?thesis by simp
next
  case (Inr st)
  note s = startup_resources [OF Inr]
  note l = run_loop_keeps [of e a n st]
  obtain out st1 where r: "run_loop e a n st = (out, st1)" by (cases "run_loop e a n st")
  show ?thesis
  proof (cases out)
    case Finished
    with Inr r have m: "main e a n = (Finished, cleanup a st1)" by (simp add: main_def)
    have c: "cap (cleanup a st1) = cap st1"
      by (simp add: cleanup_def Let_def log_def)
    from s l r cleanup_resources [of a st1] m c show ?thesis by simp
  next
    case (Terminated x)
    with Inr r have "main e a n = (Terminated x, st1)" by (simp add: main_def)
    with s l r show ?thesis by simp
  next
    case Running
    with Inr r have "main e a n = (Running, st1)" by (simp add: main_def)
    with s l r show ?thesis by simp
  qed
qed

text \<open>
  C1 does not hold of the script. With a single picture as source and the device
  connected, the second iteration finds the queue empty and calls \<^verbatim>\<open>sys.exit(0)\<close> inside
  the loop: the process ends there, the cleanup block is never reached, and the trace
  shows the connection opened and a window shown but neither \<^verbatim>\<open>destroyAllWindows\<close> nor
  the closing of the connection. Leaving the same run with the key \<^verbatim>\<open>q\<close> reaches the
  cleanup block, which releases both.
\<close>

theorem image_source_exit_skips_cleanup:
  "main (sample_env 0) (sample_args ''road.jpg'') 2 =
     (Terminated (SysExit 0),
      init_state\<lparr>arduino := Some True, min_thresh := 1 / 2, source_type := Some Image,
        writes := 1, polls := 1,
        trace :=
          [SerialOpen, Sleep 2, Print Connected,
           SerialWrite ''A'', Print (Signal_sent ''A''),
           Imshow (\<lparr>picture = ''road.jpg'', resized = None,
                    overlay = draw_detection ''Ambulance'' (sample_detection 1 (3 / 4))\<rparr>),
           Print FPS, Print All_images_processed]\<rparr>) \<and>
   main ((sample_env 0)\<lparr>wait_key := \<lambda>n. 113\<rparr>) (sample_args ''road.jpg'') 2 =
     (Finished,
      init_state\<lparr>arduino := Some False, min_thresh := 1 / 2, source_type := Some Image,
        writes := 1, polls := 1,
        trace :=
          [SerialOpen, Sleep 2, Print Connected,
           SerialWrite ''A'', Print (Signal_sent ''A''),
           Imshow (\<lparr>picture = ''road.jpg'', resized = None,
                    overlay = draw_detection ''Ambulance'' (sample_detection 1 (3 / 4))\<rparr>),
           DestroyAllWindows, SerialClose]\<rparr>)"
  by code_simp

end
